theory Spec2Isabelle
  imports
    Main
    "HOL-Library.Sublist"
    "HOL-Library.Char_ord"
    "HOL-Library.List_Lexorder"
begin

section \<open>Data model\<close>

text \<open>
  The dashboard of \<^verbatim>\<open>app.py\<close> works on one table with the four columns
  \<^verbatim>\<open>NOM\<close>, \<^verbatim>\<open>ANNEE\<close>, \<^verbatim>\<open>MOIS\<close> and \<^verbatim>\<open>MONTANT\<close>.
  A row of the table is a record, the table a list of rows in file order.

  A Python \<^verbatim>\<open>str\<close> is modelled by its UTF-8 bytes: the encoding is injective and keeps
  the order of code points, so equality, dictionary lookup, \<^verbatim>\<open>isin\<close> and sorting agree
  with Python's. Years and amounts are integers.

  Loading the spreadsheet and the refresh button (lines 14-22), the widgets' layout and
  the charts are outside the model; the table \<open>df\<close>, the three selections and today's
  year and month are the inputs of every definition below.
\<close>

record row =
  NOM :: string
  ANNEE :: int
  MOIS :: string
  MONTANT :: int

type_synonym dataframe = "row list"

datatype error = KeyError string

subsection \<open>The month vocabulary (\<^verbatim>\<open>app.py\<close>, lines 39-40)\<close>

abbreviation Janvier :: string where "Janvier \<equiv> ''Janvier''"
abbreviation Fevrier :: string where "Fevrier \<equiv> ''F'' @ [CHR 0xC3, CHR 0xA9] @ ''vrier''"
abbreviation Mars :: string where "Mars \<equiv> ''Mars''"
abbreviation Avril :: string where "Avril \<equiv> ''Avril''"
abbreviation Mai :: string where "Mai \<equiv> ''Mai''"
abbreviation Juin :: string where "Juin \<equiv> ''Juin''"
abbreviation Juillet :: string where "Juillet \<equiv> ''Juillet''"
abbreviation Aout :: string where "Aout \<equiv> ''Ao'' @ [CHR 0xC3, CHR 0xBB] @ ''t''"
abbreviation Septembre :: string where "Septembre \<equiv> ''Septembre''"
abbreviation Octobre :: string where "Octobre \<equiv> ''Octobre''"
abbreviation Novembre :: string where "Novembre \<equiv> ''Novembre''"
abbreviation Decembre :: string where "Decembre \<equiv> ''D'' @ [CHR 0xC3, CHR 0xA9] @ ''cembre''"

definition mois :: "string list" where
  "mois = [Janvier, Fevrier, Mars, Avril, Mai, Juin,
           Juillet, Aout, Septembre, Octobre, Novembre, Decembre]"

section \<open>Filter (\<^verbatim>\<open>app.py\<close>, line 46)\<close>

text \<open>
  \<^verbatim>\<open>df_filtre = df[df["ANNEE"].isin(annee_select) & df["NOM"].isin(membre_select)
                 & df["MOIS"].isin(mois_select)]\<close>

  \<^verbatim>\<open>isin\<close> turns a column into a boolean column, \<^verbatim>\<open>&\<close> combines two boolean
  columns position by position, and indexing the table by a boolean column keeps
  the rows whose position holds \<^verbatim>\<open>True\<close>.
\<close>

definition isin :: "'a list \<Rightarrow> 'a list \<Rightarrow> bool list" where
  "isin col vals = map (\<lambda>v. v \<in> set vals) col"

definition mask_and :: "bool list \<Rightarrow> bool list \<Rightarrow> bool list" where
  "mask_and a b = map (\<lambda>(x, y). x \<and> y) (zip a b)"

definition select_mask :: "'a list \<Rightarrow> bool list \<Rightarrow> 'a list" where
  "select_mask df bs = map fst (filter snd (zip df bs))"

definition df_filtre :: "dataframe \<Rightarrow> int list \<Rightarrow> string list \<Rightarrow> string list \<Rightarrow> dataframe" where
  "df_filtre df annee_select membre_select mois_select =
     select_mask df
       (mask_and
          (mask_and (isin (map ANNEE df) annee_select) (isin (map NOM df) membre_select))
          (isin (map MOIS df) mois_select))"

text \<open>
  The three selections come from \<^verbatim>\<open>st.sidebar.multiselect(label, options, default=options)\<close>
  (lines 42-44). The widget returns a list of entries of \<^verbatim>\<open>options\<close>; which ones is the
  user's choice. \<open>multiselect options sel\<close> says that \<open>sel\<close> is a value the widget can
  return. The options of the year and member widgets are computed from the table
  (lines 37-38), those of the month widget are the fixed list \<open>mois\<close>.
\<close>

definition multiselect :: "'a list \<Rightarrow> 'a list \<Rightarrow> bool" where
  "multiselect options sel = list_all (\<lambda>x. x \<in> set options) sel"

definition annees :: "dataframe \<Rightarrow> int list" where
  "annees df = sort (remdups (map ANNEE df))"

definition membres :: "dataframe \<Rightarrow> string list" where
  "membres df = sort (remdups (map NOM df))"

section \<open>Key indicators (\<^verbatim>\<open>app.py\<close>, lines 51-54)\<close>

text \<open>
  \<^verbatim>\<open>(col > 0).sum()\<close> adds up a boolean column, \<^verbatim>\<open>True\<close> counting 1 and
  \<^verbatim>\<open>False\<close> counting 0.
\<close>

definition bool_sum :: "bool list \<Rightarrow> int" where
  "bool_sum bs = sum_list (map (\<lambda>b. if b then 1 else 0) bs)"

definition total_cotisations :: "dataframe \<Rightarrow> int" where
  "total_cotisations df = sum_list (map MONTANT df)"

definition nb_paiements :: "dataframe \<Rightarrow> int" where
  "nb_paiements df = bool_sum (map (\<lambda>m. m > 0) (map MONTANT df))"

definition nb_non_paiements :: "dataframe \<Rightarrow> int" where
  "nb_non_paiements df = bool_sum (map (\<lambda>m. m = 0) (map MONTANT df))"

definition nb_membres :: "dataframe \<Rightarrow> nat" where
  "nb_membres df = length (remdups (map NOM df))"

section \<open>Late payments (\<^verbatim>\<open>app.py\<close>, lines 68-90)\<close>

text \<open>
  The dictionary \<^verbatim>\<open>mois_map\<close> of lines 73-77. Reading a key that is not in a
  dictionary raises \<^verbatim>\<open>KeyError\<close>.
\<close>

definition mois_map :: "string \<rightharpoonup> int" where
  "mois_map = map_of
     [(Janvier, 1), (Fevrier, 2), (Mars, 3), (Avril, 4),
      (Mai, 5), (Juin, 6), (Juillet, 7), (Aout, 8),
      (Septembre, 9), (Octobre, 10), (Novembre, 11), (Decembre, 12)]"

text \<open>
  The loop of lines 80-88 over the rows of the filtered table. The list
  \<^verbatim>\<open>retards\<close> is the accumulator; \<open>current_year\<close> and \<open>current_month\<close> are the year and
  month of \<^verbatim>\<open>datetime.date.today()\<close>, taken as parameters.
\<close>

fun retards_loop :: "row list \<Rightarrow> int \<Rightarrow> int \<Rightarrow> string list \<Rightarrow> error + string list" where
  "retards_loop [] current_year current_month retards = Inr retards"
| "retards_loop (row # rows) current_year current_month retards =
     (case mois_map (MOIS row) of
        None \<Rightarrow> Inl (KeyError (MOIS row))
      | Some mois_num \<Rightarrow>
          (let annee = ANNEE row; montant = MONTANT row in
           if annee < current_year \<or> (annee = current_year \<and> mois_num < current_month)
           then (if montant = 0
                 then retards_loop rows current_year current_month (retards @ [NOM row])
                 else retards_loop rows current_year current_month retards)
           else retards_loop rows current_year current_month retards))"

definition retards :: "dataframe \<Rightarrow> int \<Rightarrow> int \<Rightarrow> error + string list" where
  "retards df current_year current_month = retards_loop df current_year current_month []"

text \<open>
  \<^verbatim>\<open>pd.DataFrame(retards, columns=["NOM"]).value_counts()\<close> counts how often each
  distinct name occurs in the list; names that do not occur have no row. The result
  is modelled as the mapping from name to count; the order of its rows is not modelled.
\<close>

definition value_counts :: "'a list \<Rightarrow> ('a \<rightharpoonup> nat)" where
  "value_counts xs = (\<lambda>x. if x \<in> set xs then Some (count_list xs x) else None)"

definition retards_df :: "dataframe \<Rightarrow> int \<Rightarrow> int \<Rightarrow> error + (string \<rightharpoonup> nat)" where
  "retards_df df current_year current_month =
     (case retards df current_year current_month of
        Inl e \<Rightarrow> Inl e
      | Inr names \<Rightarrow> Inr (value_counts names))"

section \<open>Aggregations (\<^verbatim>\<open>app.py\<close>, lines 101, 113, 125, 144)\<close>

text \<open>
  \<^verbatim>\<open>df.groupby(key)["MONTANT"].sum()\<close>: one entry per distinct key of the table, in
  ascending key order, holding the sum of the amounts of the rows with that key.
\<close>

definition groupby_sum :: "(row \<Rightarrow> 'k::linorder) \<Rightarrow> dataframe \<Rightarrow> ('k \<times> int) list" where
  "groupby_sum key df =
     map (\<lambda>k. (k, sum_list (map MONTANT (filter (\<lambda>r. key r = k) df))))
         (sort (remdups (map key df)))"

text \<open>
  \<^verbatim>\<open>series.reindex(labels)\<close>: one entry per label, in the order of \<^verbatim>\<open>labels\<close>; a
  label that the series does not have gets the missing value \<^verbatim>\<open>NaN\<close>, modelled by
  \<open>None\<close>.
\<close>

definition reindex :: "('k \<times> 'v) list \<Rightarrow> 'k list \<Rightarrow> ('k \<times> 'v option) list" where
  "reindex series labels = map (\<lambda>k. (k, map_of series k)) labels"

definition total_par_annee :: "dataframe \<Rightarrow> (int \<times> int) list" where
  "total_par_annee df = groupby_sum ANNEE df"

definition total_par_membre :: "dataframe \<Rightarrow> (string \<times> int) list" where
  "total_par_membre df = groupby_sum NOM df"

definition total_par_mois :: "dataframe \<Rightarrow> (string \<times> int option) list" where
  "total_par_mois df = reindex (groupby_sum MOIS df) mois"

text \<open>
  \<^verbatim>\<open>df.pivot_table(index="NOM", columns="MOIS", values="MONTANT", aggfunc="sum",
  fill_value=0)\<close>: the row labels are the distinct members of the table and the column
  labels its distinct months, both ascending; a cell holds the sum of the amounts of
  the rows of that member and month, and \<^verbatim>\<open>fill_value\<close> where there is no such row.
\<close>

record pivot_table =
  pt_index :: "string list"
  pt_columns :: "string list"
  pt_values :: "int list list"

definition pivot_cell :: "dataframe \<Rightarrow> int \<Rightarrow> string \<Rightarrow> string \<Rightarrow> int" where
  "pivot_cell df fill_value n m =
     (let grp = filter (\<lambda>r. NOM r = n \<and> MOIS r = m) df in
      if grp = [] then fill_value else sum_list (map MONTANT grp))"

definition pivot :: "dataframe \<Rightarrow> pivot_table" where
  "pivot df =
     (let idx = sort (remdups (map NOM df)); cols = sort (remdups (map MOIS df)) in
      \<lparr> pt_index = idx, pt_columns = cols,
        pt_values = map (\<lambda>n. map (\<lambda>m. pivot_cell df 0 n m) cols) idx \<rparr>)"

section \<open>One pass of the script\<close>

text \<open>
  The script runs top to bottom on every interaction: filter, indicators, late
  payments, then the aggregations behind the charts. An exception in the loop of
  lines 80-88 ends the pass.
\<close>

record views =
  v_filtre :: dataframe
  v_total_cotisations :: int
  v_nb_paiements :: int
  v_nb_non_paiements :: int
  v_nb_membres :: nat
  v_retards_df :: "string \<rightharpoonup> nat"
  v_total_par_annee :: "(int \<times> int) list"
  v_total_par_membre :: "(string \<times> int) list"
  v_total_par_mois :: "(string \<times> int option) list"
  v_pivot :: pivot_table

definition dashboard ::
  "dataframe \<Rightarrow> int list \<Rightarrow> string list \<Rightarrow> string list \<Rightarrow> int \<Rightarrow> int \<Rightarrow> error + views" where
  "dashboard df annee_select membre_select mois_select current_year current_month =
     (let f = df_filtre df annee_select membre_select mois_select in
      case retards_df f current_year current_month of
        Inl e \<Rightarrow> Inl e
      | Inr tally \<Rightarrow>
          Inr \<lparr> v_filtre = f,
                v_total_cotisations = total_cotisations f,
                v_nb_paiements = nb_paiements f,
                v_nb_non_paiements = nb_non_paiements f,
                v_nb_membres = nb_membres f,
                v_retards_df = tally,
                v_total_par_annee = total_par_annee f,
                v_total_par_membre = total_par_membre f,
                v_total_par_mois = total_par_mois f,
                v_pivot = pivot f \<rparr>)"

section \<open>The specification's wording of the arrears rule\<close>

text \<open>
  The specification speaks of the canonical month index of a month name: its
  position in the canonical January-to-December list, January being month 1 as in a
  calendar date. A record is in arrears when its (year, month) is strictly before the
  reference (year, month) and its amount is 0. The tally of the data model counts, per
  member, the distinct (year, month) pairs in arrears.
\<close>

fun position :: "'a list \<Rightarrow> 'a \<Rightarrow> int option" where
  "position [] x = None"
| "position (y # ys) x = (if x = y then Some 1 else map_option (\<lambda>i. i + 1) (position ys x))"

definition canonical_month_index :: "string \<Rightarrow> int option" where
  "canonical_month_index m = position mois m"

definition spec_precedes :: "row \<Rightarrow> int \<Rightarrow> int \<Rightarrow> bool" where
  "spec_precedes r ref_year ref_month =
     (case canonical_month_index (MOIS r) of
        None \<Rightarrow> False
      | Some i \<Rightarrow> ANNEE r < ref_year \<or> (ANNEE r = ref_year \<and> i < ref_month))"

definition spec_in_arrears :: "row \<Rightarrow> int \<Rightarrow> int \<Rightarrow> bool" where
  "spec_in_arrears r ref_year ref_month = (spec_precedes r ref_year ref_month \<and> MONTANT r = 0)"

definition spec_distinct_tally :: "dataframe \<Rightarrow> int \<Rightarrow> int \<Rightarrow> string \<Rightarrow> nat" where
  "spec_distinct_tally df ref_year ref_month n =
     length (remdups (map (\<lambda>r. (ANNEE r, MOIS r))
       (filter (\<lambda>r. NOM r = n \<and> spec_in_arrears r ref_year ref_month) df)))"


section \<open>Properties of the filter\<close>

lemma select_mask_map:
  "select_mask df (map P df) = filter P df"
  by (induction df) (simp_all add: select_mask_def)

lemma mask_and_map:
  "mask_and (map P xs) (map Q xs) = map (\<lambda>x. P x \<and> Q x) xs"
  by (induction xs) (simp_all add: mask_and_def)

lemma isin_map:
  "isin (map f df) vals = map (\<lambda>r. f r \<in> set vals) df"
  by (simp add: isin_def)

lemma df_filtre_filter:
  "df_filtre df ys ms mo =
     filter (\<lambda>r. ANNEE r \<in> set ys \<and> NOM r \<in> set ms \<and> MOIS r \<in> set mo) df"
  by (simp add: df_filtre_def isin_map mask_and_map select_mask_map)

text \<open>
  The month widget offers the canonical names only, so every row that passes the
  filter has a canonical month.
\<close>

lemma df_filtre_mois_canonical:
  "multiselect mois mo \<Longrightarrow> \<forall>r \<in> set (df_filtre df ys ms mo). MOIS r \<in> set mois"
  by (auto simp: df_filtre_filter multiselect_def list_all_iff)

lemma df_filtre_drop_unknown:
  assumes "multiselect mois mo"
  shows "df_filtre (filter (\<lambda>r. MOIS r \<in> set mois) df) ys ms mo = df_filtre df ys ms mo"
proof -
  have "\<And>r. MOIS r \<in> set mo \<Longrightarrow> MOIS r \<in> set mois"
    using assms by (auto simp: multiselect_def list_all_iff)
  then show ?thesis
    by (auto simp: df_filtre_filter intro: filter_cong)
qed

text \<open>
  Claim C6. For every table and every three selections, the filter returns exactly
  the rows whose year, member and month are all selected, in the order of the table
  (a subsequence of it); if one of the three selections is empty, the result is empty.
\<close>

theorem df_filtre_exact:
  "df_filtre df ys ms mo =
     filter (\<lambda>r. ANNEE r \<in> set ys \<and> NOM r \<in> set ms \<and> MOIS r \<in> set mo) df
   \<and> subseq (df_filtre df ys ms mo) df
   \<and> df_filtre df [] ms mo = []
   \<and> df_filtre df ys [] mo = []
   \<and> df_filtre df ys ms [] = []"
  by (simp add: df_filtre_filter)

theorem df_filtre_exact_witness:
  "df_filtre [\<lparr>NOM = ''Alice'', ANNEE = 2024, MOIS = Janvier, MONTANT = 5000\<rparr>,
              \<lparr>NOM = ''Alice'', ANNEE = 2024, MOIS = Fevrier, MONTANT = 0\<rparr>,
              \<lparr>NOM = ''Bob'', ANNEE = 2024, MOIS = Janvier, MONTANT = 0\<rparr>]
             [2024] [''Alice''] mois =
     [\<lparr>NOM = ''Alice'', ANNEE = 2024, MOIS = Janvier, MONTANT = 5000\<rparr>,
      \<lparr>NOM = ''Alice'', ANNEE = 2024, MOIS = Fevrier, MONTANT = 0\<rparr>]"
  using df_filtre_exact
    [of "[\<lparr>NOM = ''Alice'', ANNEE = 2024, MOIS = Janvier, MONTANT = 5000\<rparr>,
          \<lparr>NOM = ''Alice'', ANNEE = 2024, MOIS = Fevrier, MONTANT = 0\<rparr>,
          \<lparr>NOM = ''Bob'', ANNEE = 2024, MOIS = Janvier, MONTANT = 0\<rparr>]"
        "[2024]" "[''Alice'']" mois]
  by (simp add: mois_def)

text \<open>
  Claim C7. The filter is idempotent: filtering its own output again with the same
  three selections returns that output unchanged.
\<close>

theorem df_filtre_idempotent:
  "df_filtre (df_filtre df ys ms mo) ys ms mo = df_filtre df ys ms mo"
  by (simp add: df_filtre_filter)

theorem df_filtre_idempotent_witness:
  "df_filtre
     (df_filtre [\<lparr>NOM = ''Alice'', ANNEE = 2024, MOIS = Janvier, MONTANT = 5000\<rparr>,
                 \<lparr>NOM = ''Bob'', ANNEE = 2023, MOIS = Janvier, MONTANT = 0\<rparr>]
                [2024] [''Alice'', ''Bob''] [Janvier])
     [2024] [''Alice'', ''Bob''] [Janvier] =
   [\<lparr>NOM = ''Alice'', ANNEE = 2024, MOIS = Janvier, MONTANT = 5000\<rparr>]"
  using df_filtre_idempotent
    [of "[\<lparr>NOM = ''Alice'', ANNEE = 2024, MOIS = Janvier, MONTANT = 5000\<rparr>,
          \<lparr>NOM = ''Bob'', ANNEE = 2023, MOIS = Janvier, MONTANT = 0\<rparr>]"
        "[2024]" "[''Alice'', ''Bob'']" "[Janvier]"]
  by (simp add: df_filtre_filter)

section \<open>Properties of the indicators and of the totals\<close>

text \<open>
  Claim C8. For every filtered table in which no amount is negative, the number of
  payments (amount above 0) plus the number of non-payments (amount equal to 0) is the
  number of rows.
\<close>

theorem paid_plus_unpaid:
  assumes "\<forall>r \<in> set f. 0 \<le> MONTANT r"
  shows "nb_paiements f + nb_non_paiements f = int (length f)"
  using assms
  by (induction f) (auto simp: nb_paiements_def nb_non_paiements_def bool_sum_def)

theorem paid_plus_unpaid_witness:
  "list_all (\<lambda>r. 0 \<le> MONTANT r)
     [\<lparr>NOM = ''Alice'', ANNEE = 2024, MOIS = Janvier, MONTANT = 5000\<rparr>,
      \<lparr>NOM = ''Alice'', ANNEE = 2024, MOIS = Fevrier, MONTANT = 0\<rparr>]
   \<and> nb_paiements
       [\<lparr>NOM = ''Alice'', ANNEE = 2024, MOIS = Janvier, MONTANT = 5000\<rparr>,
        \<lparr>NOM = ''Alice'', ANNEE = 2024, MOIS = Fevrier, MONTANT = 0\<rparr>]
     + nb_non_paiements
       [\<lparr>NOM = ''Alice'', ANNEE = 2024, MOIS = Janvier, MONTANT = 5000\<rparr>,
        \<lparr>NOM = ''Alice'', ANNEE = 2024, MOIS = Fevrier, MONTANT = 0\<rparr>] = 2"
proof -
  have h: "\<forall>r \<in> set [\<lparr>NOM = ''Alice'', ANNEE = 2024, MOIS = Janvier, MONTANT = 5000\<rparr>,
      \<lparr>NOM = ''Alice'', ANNEE = 2024, MOIS = Fevrier, MONTANT = 0\<rparr>]. 0 \<le> MONTANT r"
    by simp
  show ?thesis using paid_plus_unpaid [OF h] by simp
qed






section \<open>Properties of the late-payment pass\<close>

text \<open>
  The dictionary \<open>mois_map\<close> numbers the months as the canonical list does, and is
  defined exactly on the canonical names.
\<close>

lemma mois_map_position: "mois_map m = canonical_month_index m"
  by (simp add: mois_map_def canonical_month_index_def mois_def)

lemma position_None: "position xs x = None \<longleftrightarrow> x \<notin> set xs"
  by (induction xs) auto

lemma mois_map_Some: "m \<in> set mois \<Longrightarrow> \<exists>i. mois_map m = Some i"
  using position_None [of mois m]
  by (cases "mois_map m") (simp_all add: mois_map_position canonical_month_index_def)

lemma mois_map_None: "m \<notin> set mois \<Longrightarrow> mois_map m = None"
  by (simp add: mois_map_position canonical_month_index_def position_None)

lemma mois_map_range: "mois_map m = Some i \<Longrightarrow> 1 \<le> i \<and> i \<le> 12"
  by (simp add: mois_map_def split: if_splits)

text \<open>
  On rows with canonical months the loop never raises and appends the names of the
  rows in arrears, in table order.
\<close>

lemma retards_loop_canonical:
  "\<forall>r \<in> set rows. MOIS r \<in> set mois \<Longrightarrow>
   retards_loop rows cy cm acc =
     Inr (acc @ map NOM (filter (\<lambda>r. spec_in_arrears r cy cm) rows))"
proof (induction rows arbitrary: acc)
  case Nil
  then show ?case by simp
next
  case (Cons r rows)
  from Cons.prems have "MOIS r \<in> set mois" by simp
  then obtain i where i: "mois_map (MOIS r) = Some i"
    using mois_map_Some by blast
  then have c: "canonical_month_index (MOIS r) = Some i"
    by (simp add: mois_map_position)
  from Cons.prems have rest: "\<forall>r \<in> set rows. MOIS r \<in> set mois" by simp
  show ?case
    using i c Cons.IH [OF rest]
    by (simp add: spec_in_arrears_def spec_precedes_def Let_def)
qed

text \<open>A row with any other month makes the loop raise \<^verbatim>\<open>KeyError\<close>.\<close>

lemma retards_loop_KeyError:
  "\<not> (\<forall>r \<in> set rows. MOIS r \<in> set mois) \<Longrightarrow>
   \<exists>m. m \<notin> set mois \<and> retards_loop rows cy cm acc = Inl (KeyError m)"
proof (induction rows arbitrary: acc)
  case Nil
  then show ?case by simp
next
  case (Cons r rows)
  show ?case
  proof (cases "MOIS r \<in> set mois")
    case False
    then show ?thesis by (auto simp: mois_map_None)
  next
    case True
    then obtain i where i: "mois_map (MOIS r) = Some i"
      using mois_map_Some by blast
    from True Cons.prems have "\<not> (\<forall>r \<in> set rows. MOIS r \<in> set mois)" by simp
    from Cons.IH [OF this] show ?thesis using i by (simp add: Let_def)
  qed
qed

text \<open>
  Claim C2. For every table, every selection the widgets can return and every
  reference year and month, the loop flags a row of the filtered table, that is appends
  its member's name, if and only if the row's (year, month) is strictly before the
  reference (year, month) and its amount is 0: the list it returns holds the names of
  exactly these rows, and each iteration appends or not by this test. In particular a
  row of the reference month or of a later month is never flagged.
\<close>

theorem retards_flags_iff:
  assumes "multiselect mois mo" and "f = df_filtre df ys ms mo"
  shows "retards f cy cm = Inr (map NOM (filter (\<lambda>r. spec_in_arrears r cy cm) f))
       \<and> (\<forall>r \<in> set f. \<forall>rest acc.
            retards_loop (r # rest) cy cm acc =
              retards_loop rest cy cm
                (if spec_in_arrears r cy cm then acc @ [NOM r] else acc))
       \<and> (\<forall>r \<in> set f. \<forall>i rest acc. mois_map (MOIS r) = Some i \<longrightarrow>
            (cy < ANNEE r \<or> (ANNEE r = cy \<and> cm \<le> i)) \<longrightarrow>
            retards_loop (r # rest) cy cm acc = retards_loop rest cy cm acc)"
proof (intro conjI ballI allI impI)
  have canonical: "\<forall>r \<in> set f. MOIS r \<in> set mois"
    using assms by (simp add: df_filtre_mois_canonical)
  show "retards f cy cm = Inr (map NOM (filter (\<lambda>r. spec_in_arrears r cy cm) f))"
    using canonical by (simp add: retards_def retards_loop_canonical)
  fix r rest acc
  assume "r \<in> set f"
  with canonical have "MOIS r \<in> set mois" by simp
  then obtain i where i: "mois_map (MOIS r) = Some i"
    using mois_map_Some by blast
  then have "canonical_month_index (MOIS r) = Some i"
    by (simp add: mois_map_position)
  with i show "retards_loop (r # rest) cy cm acc =
      retards_loop rest cy cm (if spec_in_arrears r cy cm then acc @ [NOM r] else acc)"
    by (simp add: spec_in_arrears_def spec_precedes_def Let_def)
next
  fix r :: row and i rest acc
  assume "mois_map (MOIS r) = Some i" and "cy < ANNEE r \<or> (ANNEE r = cy \<and> cm \<le> i)"
  then show "retards_loop (r # rest) cy cm acc = retards_loop rest cy cm acc"
    by (auto simp: Let_def)
qed

theorem retards_flags_iff_witness:
  "multiselect mois mois
   \<and> retards
       (df_filtre
          [\<lparr>NOM = ''Alice'', ANNEE = 2024, MOIS = Janvier, MONTANT = 5000\<rparr>,
           \<lparr>NOM = ''Alice'', ANNEE = 2024, MOIS = Fevrier, MONTANT = 0\<rparr>,
           \<lparr>NOM = ''Bob'', ANNEE = 2024, MOIS = Janvier, MONTANT = 0\<rparr>,
           \<lparr>NOM = ''Bob'', ANNEE = 2024, MOIS = Mars, MONTANT = 0\<rparr>,
           \<lparr>NOM = ''Bob'', ANNEE = 2025, MOIS = Janvier, MONTANT = 0\<rparr>]
          [2024, 2025] [''Alice'', ''Bob''] mois) 2024 3 =
     Inr [''Alice'', ''Bob'']"
proof -
  let ?df = "[\<lparr>NOM = ''Alice'', ANNEE = 2024, MOIS = Janvier, MONTANT = 5000\<rparr>,
      \<lparr>NOM = ''Alice'', ANNEE = 2024, MOIS = Fevrier, MONTANT = 0\<rparr>,
      \<lparr>NOM = ''Bob'', ANNEE = 2024, MOIS = Janvier, MONTANT = 0\<rparr>,
      \<lparr>NOM = ''Bob'', ANNEE = 2024, MOIS = Mars, MONTANT = 0\<rparr>,
      \<lparr>NOM = ''Bob'', ANNEE = 2025, MOIS = Janvier, MONTANT = 0\<rparr>]"
  let ?f = "df_filtre ?df [2024, 2025] [''Alice'', ''Bob''] mois"
  have h: "multiselect mois mois"
    by (simp add: multiselect_def list_all_iff)
  have "retards ?f 2024 3 = Inr (map NOM (filter (\<lambda>r. spec_in_arrears r 2024 3) ?f))"
    using retards_flags_iff [OF h refl, of ?df "[2024, 2025]" "[''Alice'', ''Bob'']" 2024 3]
    by (rule conjunct1)
  then show ?thesis
    using h
    by (simp add: df_filtre_filter spec_in_arrears_def spec_precedes_def
        canonical_month_index_def mois_def)
qed

text \<open>
  Claim C10. When every month of the filtered table is one of the twelve canonical
  names, every lookup in \<open>mois_map\<close> succeeds and the late-payment pass returns: the
  loop yields its list and the tally is built, no \<^verbatim>\<open>KeyError\<close> is raised.
\<close>

theorem retards_total:
  assumes "\<forall>r \<in> set f. MOIS r \<in> set mois"
  shows "(\<forall>r \<in> set f. \<exists>i. mois_map (MOIS r) = Some i)
       \<and> (\<exists>names. retards f cy cm = Inr names)
       \<and> (\<exists>tally. retards_df f cy cm = Inr tally)"
  using assms
  by (simp add: retards_def retards_df_def retards_loop_canonical mois_map_Some)

theorem retards_total_witness:
  "list_all (\<lambda>r. MOIS r \<in> set mois)
     [\<lparr>NOM = ''Bob'', ANNEE = 2023, MOIS = Decembre, MONTANT = 0\<rparr>,
      \<lparr>NOM = ''Bob'', ANNEE = 2024, MOIS = Aout, MONTANT = 10\<rparr>]
   \<and> (\<exists>names. retards
         [\<lparr>NOM = ''Bob'', ANNEE = 2023, MOIS = Decembre, MONTANT = 0\<rparr>,
          \<lparr>NOM = ''Bob'', ANNEE = 2024, MOIS = Aout, MONTANT = 10\<rparr>] 2024 3 = Inr names)"
proof -
  have h: "\<forall>r \<in> set [\<lparr>NOM = ''Bob'', ANNEE = 2023, MOIS = Decembre, MONTANT = 0\<rparr>,
      \<lparr>NOM = ''Bob'', ANNEE = 2024, MOIS = Aout, MONTANT = 10\<rparr>]. MOIS r \<in> set mois"
    by (simp add: mois_def)
  show ?thesis
    using retards_total [OF h, of 2024 3] by (simp add: mois_def)
qed


subsection \<open>The tally\<close>

lemma count_list_map_filter:
  "count_list (map f (filter P xs)) n = length (filter (\<lambda>r. f r = n \<and> P r) xs)"
  by (induction xs) auto

lemma value_counts_map_filter:
  "value_counts (map f (filter P xs)) =
     (\<lambda>n. let c = length (filter (\<lambda>r. f r = n \<and> P r) xs)
           in if c = 0 then None else Some c)"
proof
  fix n
  have "n \<in> set (map f (filter P xs)) \<longleftrightarrow> filter (\<lambda>r. f r = n \<and> P r) xs \<noteq> []"
    by (auto simp: filter_empty_conv)
  then show "value_counts (map f (filter P xs)) n =
     (let c = length (filter (\<lambda>r. f r = n \<and> P r) xs) in if c = 0 then None else Some c)"
    by (simp add: value_counts_def count_list_map_filter Let_def)
qed

text \<open>
  Claim C3 says that the tally counts, per member, the distinct (year, month) pairs in
  arrears, so that a duplicated row does not raise the count. On the code it does: two
  equal rows of Bob for January 2024 with amount 0, seen from March 2024, give Bob the
  count 2, where there is one distinct (year, month) pair.
\<close>

theorem tally_counts_duplicates:
  "retards_df [\<lparr>NOM = ''Bob'', ANNEE = 2024, MOIS = Janvier, MONTANT = 0\<rparr>,
               \<lparr>NOM = ''Bob'', ANNEE = 2024, MOIS = Janvier, MONTANT = 0\<rparr>] 2024 3
     = Inr (value_counts [''Bob'', ''Bob''])
   \<and> value_counts [''Bob'', ''Bob''] ''Bob'' = Some 2
   \<and> spec_distinct_tally
       [\<lparr>NOM = ''Bob'', ANNEE = 2024, MOIS = Janvier, MONTANT = 0\<rparr>,
        \<lparr>NOM = ''Bob'', ANNEE = 2024, MOIS = Janvier, MONTANT = 0\<rparr>] 2024 3 ''Bob'' = 1"
  by (simp add: retards_df_def retards_def mois_map_def value_counts_def
      spec_distinct_tally_def spec_in_arrears_def spec_precedes_def
      canonical_month_index_def mois_def)

text \<open>
  Claim C3, amended. For every table and every selection the widgets can return, the
  tally maps each member to the number of rows of the filtered table that belong to
  that member, are strictly before the reference month and have amount 0; every such
  row counts, duplicates included, and a member without such a row has no entry.
\<close>

theorem retards_df_counts_rows:
  assumes "multiselect mois mo" and "f = df_filtre df ys ms mo"
  shows "retards_df f cy cm =
     Inr (\<lambda>n. let c = length (filter (\<lambda>r. NOM r = n \<and> spec_in_arrears r cy cm) f)
               in if c = 0 then None else Some c)"
proof -
  have "\<forall>r \<in> set f. MOIS r \<in> set mois"
    using assms by (simp add: df_filtre_mois_canonical)
  then show ?thesis
    by (simp add: retards_df_def retards_def retards_loop_canonical value_counts_map_filter)
qed

theorem retards_df_counts_rows_witness:
  "multiselect mois mois
   \<and> (\<exists>tally. retards_df
         (df_filtre
            [\<lparr>NOM = ''Alice'', ANNEE = 2024, MOIS = Janvier, MONTANT = 5000\<rparr>,
             \<lparr>NOM = ''Bob'', ANNEE = 2024, MOIS = Janvier, MONTANT = 0\<rparr>,
             \<lparr>NOM = ''Bob'', ANNEE = 2024, MOIS = Janvier, MONTANT = 0\<rparr>]
            [2024] [''Alice'', ''Bob''] mois) 2024 3 = Inr tally
        \<and> tally ''Bob'' = Some 2 \<and> tally ''Alice'' = None)"
proof -
  have h: "multiselect mois mois"
    by (simp add: multiselect_def list_all_iff)
  show ?thesis
    using h retards_df_counts_rows [OF h refl,
      of "[\<lparr>NOM = ''Alice'', ANNEE = 2024, MOIS = Janvier, MONTANT = 5000\<rparr>,
           \<lparr>NOM = ''Bob'', ANNEE = 2024, MOIS = Janvier, MONTANT = 0\<rparr>,
           \<lparr>NOM = ''Bob'', ANNEE = 2024, MOIS = Janvier, MONTANT = 0\<rparr>]"
         "[2024]" "[''Alice'', ''Bob'']" 2024 3]
    by (simp add: df_filtre_filter spec_in_arrears_def spec_precedes_def
        canonical_month_index_def mois_def)
qed

section \<open>Rows with an unknown month\<close>

text \<open>
  Claim C5 says that a row whose month is not one of the twelve canonical names is
  reported to the user as a data error and is never silently dropped. On the code, a
  table holding one such row (month \<^verbatim>\<open>January\<close>), with every widget at its default,
  gives a pass that returns without an error and whose filtered table and views are
  empty: the row is gone and nothing is reported.
\<close>

theorem unknown_month_silently_dropped:
  "MOIS \<lparr>NOM = ''Alice'', ANNEE = 2024, MOIS = ''January'', MONTANT = 0\<rparr> \<notin> set mois
   \<and> annees [\<lparr>NOM = ''Alice'', ANNEE = 2024, MOIS = ''January'', MONTANT = 0\<rparr>] = [2024]
   \<and> membres [\<lparr>NOM = ''Alice'', ANNEE = 2024, MOIS = ''January'', MONTANT = 0\<rparr>] = [''Alice'']
   \<and> dashboard [\<lparr>NOM = ''Alice'', ANNEE = 2024, MOIS = ''January'', MONTANT = 0\<rparr>]
       [2024] [''Alice''] mois 2024 3 =
     Inr \<lparr> v_filtre = [],
           v_total_cotisations = 0,
           v_nb_paiements = 0,
           v_nb_non_paiements = 0,
           v_nb_membres = 0,
           v_retards_df = Map.empty,
           v_total_par_annee = [],
           v_total_par_membre = [],
           v_total_par_mois =
             [(Janvier, None), (Fevrier, None), (Mars, None), (Avril, None), (Mai, None),
              (Juin, None), (Juillet, None), (Aout, None), (Septembre, None),
              (Octobre, None), (Novembre, None), (Decembre, None)],
           v_pivot = \<lparr> pt_index = [], pt_columns = [], pt_values = [] \<rparr> \<rparr>"
proof -
  have f: "df_filtre [\<lparr>NOM = ''Alice'', ANNEE = 2024, MOIS = ''January'', MONTANT = 0\<rparr>]
       [2024] [''Alice''] mois = []"
    by (simp add: df_filtre_filter mois_def)
  show ?thesis
    by (simp add: dashboard_def f retards_df_def retards_def value_counts_def
        total_cotisations_def nb_paiements_def nb_non_paiements_def nb_membres_def bool_sum_def
        total_par_annee_def total_par_membre_def total_par_mois_def groupby_sum_def
        reindex_def pivot_def annees_def membres_def)
      (simp add: mois_def)
qed

text \<open>
  Claim C5, amended. For every table and every selection that the month widget can
  return, a row whose month is not one of the twelve canonical names does not pass the
  filter; the pass raises no error and computes every view (by-month, pivot and
  arrears among them) as it does for the table without such rows.
\<close>

theorem unknown_month_dropped:
  assumes "multiselect mois mo"
  shows "(\<forall>r \<in> set df. MOIS r \<notin> set mois \<longrightarrow> r \<notin> set (df_filtre df ys ms mo))
       \<and> dashboard df ys ms mo cy cm =
           dashboard (filter (\<lambda>r. MOIS r \<in> set mois) df) ys ms mo cy cm
       \<and> (\<exists>v. dashboard df ys ms mo cy cm = Inr v)"
proof (intro conjI)
  show "\<forall>r \<in> set df. MOIS r \<notin> set mois \<longrightarrow> r \<notin> set (df_filtre df ys ms mo)"
    using df_filtre_mois_canonical [OF assms] by blast
  show "dashboard df ys ms mo cy cm =
           dashboard (filter (\<lambda>r. MOIS r \<in> set mois) df) ys ms mo cy cm"
    by (simp add: dashboard_def df_filtre_drop_unknown [OF assms])
  have "\<forall>r \<in> set (df_filtre df ys ms mo). MOIS r \<in> set mois"
    by (rule df_filtre_mois_canonical [OF assms])
  then have "\<exists>t. retards_df (df_filtre df ys ms mo) cy cm = Inr t"
    by (simp add: retards_df_def retards_def retards_loop_canonical)
  then show "\<exists>v. dashboard df ys ms mo cy cm = Inr v"
    by (auto simp: dashboard_def Let_def)
qed

theorem unknown_month_dropped_witness:
  "multiselect mois [Janvier, Mars]
   \<and> dashboard
       [\<lparr>NOM = ''Alice'', ANNEE = 2024, MOIS = ''January'', MONTANT = 0\<rparr>,
        \<lparr>NOM = ''Alice'', ANNEE = 2024, MOIS = Janvier, MONTANT = 100\<rparr>]
       [2024] [''Alice''] [Janvier, Mars] 2024 3 =
     dashboard
       [\<lparr>NOM = ''Alice'', ANNEE = 2024, MOIS = Janvier, MONTANT = 100\<rparr>]
       [2024] [''Alice''] [Janvier, Mars] 2024 3"
proof -
  have h: "multiselect mois [Janvier, Mars]"
    by (simp add: multiselect_def mois_def)
  show ?thesis
    using unknown_month_dropped [OF h,
      of "[\<lparr>NOM = ''Alice'', ANNEE = 2024, MOIS = ''January'', MONTANT = 0\<rparr>,
           \<lparr>NOM = ''Alice'', ANNEE = 2024, MOIS = Janvier, MONTANT = 100\<rparr>]"
         "[2024]" "[''Alice'']" 2024 3] h
    by (simp add: mois_def)
qed

section \<open>Properties of the month views\<close>

lemma map_of_tabulate:
  "map_of (map (\<lambda>k. (k, f k)) ks) k = (if k \<in> set ks then Some (f k) else None)"
  by (induction ks) auto

lemma map_of_groupby_sum:
  "map_of (groupby_sum key df) k =
     (if k \<in> key ` set df
      then Some (sum_list (map MONTANT (filter (\<lambda>r. key r = k) df))) else None)"
  by (simp add: groupby_sum_def map_of_tabulate)

text \<open>
  The by-month totals have one entry per canonical month, in canonical order. The entry
  of a month with rows is the sum of their amounts; the entry of a month without rows
  is the missing value.
\<close>

lemma total_par_mois_entries:
  "total_par_mois df =
     map (\<lambda>m. (m, if m \<in> MOIS ` set df
                   then Some (sum_list (map MONTANT (filter (\<lambda>r. MOIS r = m) df)))
                   else None)) mois"
  by (simp add: total_par_mois_def reindex_def map_of_groupby_sum)

lemma total_par_mois_labels:
  "map fst (total_par_mois df) = mois \<and> length (total_par_mois df) = 12"
  by (simp add: total_par_mois_entries comp_def) (simp add: mois_def)

text \<open>
  Claim C1: the by-month totals have twelve entries in canonical order, and a month
  absent from the filtered table has the total 0, not a missing value. On the code the
  twelve entries are there, but the entry of an absent month is the missing value: for
  a table with the single row (Alice, 2024, Janvier, 100), January holds 100 and each of
  the eleven other months holds \<^verbatim>\<open>NaN\<close>.
\<close>

theorem total_par_mois_absent_months_missing:
  "total_par_mois [\<lparr>NOM = ''Alice'', ANNEE = 2024, MOIS = Janvier, MONTANT = 100\<rparr>] =
     [(Janvier, Some 100), (Fevrier, None), (Mars, None), (Avril, None), (Mai, None),
      (Juin, None), (Juillet, None), (Aout, None), (Septembre, None), (Octobre, None),
      (Novembre, None), (Decembre, None)]"
  by (simp add: total_par_mois_def reindex_def groupby_sum_def mois_def)

text \<open>
  The pivot has one row per distinct member and one column per distinct month of the
  table, both ascending, and each cell is the sum of the amounts of its member and
  month (0 where there is no row).
\<close>

lemma pivot_labels:
  "set (pt_index (pivot df)) = NOM ` set df \<and> distinct (pt_index (pivot df))
   \<and> sorted (pt_index (pivot df))
   \<and> set (pt_columns (pivot df)) = MOIS ` set df \<and> distinct (pt_columns (pivot df))
   \<and> sorted (pt_columns (pivot df))"
  by (simp add: pivot_def Let_def)

lemma pivot_cell_sum:
  "pivot_cell df 0 n m = sum_list (map MONTANT (filter (\<lambda>r. NOM r = n \<and> MOIS r = m) df))"
  by (simp add: pivot_cell_def Let_def)

lemma pivot_values:
  "pt_values (pivot df) =
     map (\<lambda>n. map (\<lambda>m. sum_list (map MONTANT (filter (\<lambda>r. NOM r = n \<and> MOIS r = m) df)))
                  (pt_columns (pivot df))) (pt_index (pivot df))"
  by (simp add: pivot_def Let_def pivot_cell_sum)

text \<open>
  Claim C4: the pivot has one row per distinct member, one column for each of the
  twelve canonical months even when a month is absent from the data, sums in the cells
  and 0 where no row matches. On the code the columns are the months present in the
  filtered table only: for the three rows below there are two columns, February and
  January, in that (alphabetical) order.
\<close>

theorem pivot_columns_present_months_only:
  "pivot [\<lparr>NOM = ''Alice'', ANNEE = 2024, MOIS = Janvier, MONTANT = 5000\<rparr>,
          \<lparr>NOM = ''Alice'', ANNEE = 2024, MOIS = Fevrier, MONTANT = 0\<rparr>,
          \<lparr>NOM = ''Bob'', ANNEE = 2024, MOIS = Janvier, MONTANT = 0\<rparr>] =
     \<lparr> pt_index = [''Alice'', ''Bob''], pt_columns = [Fevrier, Janvier],
       pt_values = [[0, 5000], [0, 0]] \<rparr>"
  by code_simp

end
